theory Spec2Isabelle
  imports Complex_Main
begin

section \<open>The Tarsier generation endpoint (app/tarsier\_endpoint.py)\<close>

text \<open>
  The endpoint is a request handler around three external collaborators: the HTTP client
  that fetches a video, the file system holding the temporary file, and the generation
  routine \<open>process_one\<close>. The embedding makes each of them explicit: the file system and
  the sequence of external calls are a \<open>world\<close> value that every operation takes and
  returns, the collaborators are the fields of an \<open>env\<close> record, and every Python
  exception is a value of type \<open>exn\<close> on the left of a sum. Logging to standard output
  is left out.
\<close>

subsection \<open>Exceptions, values and responses\<close>

text \<open>
  \<open>HTTPException status detail\<close> is FastAPI's exception; \<open>OtherException msg\<close> is any
  other subclass of \<open>Exception\<close>, with \<open>msg\<close> the text \<open>str(e)\<close> gives. Both are caught
  by \<open>except Exception\<close>.
\<close>

datatype exn = HTTPException nat string | OtherException string

datatype pyval = PyBool bool | PyInt int | PyFloat real | PyStr string

type_synonym pydict = "(string \<times> pyval) list"

datatype body = JsonBody pydict | PlainText string

text \<open>
  What the framework sends for the outcome of a handler: a returned dict is a 200 response,
  an \<open>HTTPException\<close> is a response of its own status with the detail as body, and any
  other exception is a plain 500.
\<close>

fun http_response :: "exn + pydict \<Rightarrow> nat \<times> body" where
  "http_response (Inr d) = (200, JsonBody d)"
| "http_response (Inl (HTTPException code detail)) = (code, JsonBody [(''detail'', PyStr detail)])"
| "http_response (Inl (OtherException msg)) = (500, PlainText ''Internal Server Error'')"

subsection \<open>The world: files and external calls\<close>

type_synonym files = "string \<rightharpoonup> string"

datatype event =
    is_HttpGet: HttpGet string
  | is_CreateTemp: CreateTemp string
  | is_Unlink: Unlink string
  | is_ProcessOne: ProcessOne string "string option" pydict

record world =
  files :: files
  trace :: "event list"

definition record_event :: "event \<Rightarrow> world \<Rightarrow> world" where
  "record_event ev w = w\<lparr>trace := trace w @ [ev]\<rparr>"

text \<open>The events a request adds to the trace, taking the world from \<open>w\<close> to \<open>w'\<close>.\<close>

definition request_events :: "world \<Rightarrow> world \<Rightarrow> event list" where
  "request_events w w' = drop (length (trace w)) (trace w')"

text \<open>
  An HTTP GET either fails to connect or answers with a status and a streamed body. The
  body is the sequence of items \<open>iter_content\<close> yields; \<open>Broken msg\<close> is the stream
  raising in the middle of the transfer.
\<close>

datatype stream_item = Chunk string | Broken string

datatype http_result = ConnectionFailed string | Responded nat "stream_item list"

text \<open>
  The collaborators. \<open>status_error\<close> is the text of the error \<open>raise_for_status\<close>
  raises, \<open>url_ext\<close> is \<open>os.path.splitext(urlparse(url).path)[1]\<close>, \<open>temp_name\<close> is the
  name \<open>NamedTemporaryFile\<close> picks, \<open>between\<close> is what other processes do to the file
  system after the download has returned and before the handler looks at the file,
  \<open>str_http\<close> is \<open>str\<close> of an \<open>HTTPException\<close>, \<open>enoent\<close> the text of the
  \<open>FileNotFoundError\<close> for a path, and \<open>param_devices\<close> lists
  \<open>str(p.device)\<close> for the tensors \<open>p\<close> of \<open>model.parameters()\<close>, in order.
\<close>

record ('m, 'p) env =
  http_get :: "string \<Rightarrow> http_result"
  status_error :: "nat \<Rightarrow> string \<Rightarrow> string"
  url_ext :: "string \<Rightarrow> string"
  temp_name :: "files \<Rightarrow> string \<Rightarrow> string"
  between :: "files \<Rightarrow> files"
  process_one :: "'m \<Rightarrow> 'p \<Rightarrow> string \<Rightarrow> string option \<Rightarrow> pydict \<Rightarrow> exn + string"
  str_http :: "nat \<Rightarrow> string \<Rightarrow> string"
  enoent :: "string \<Rightarrow> string"
  param_devices :: "'m \<Rightarrow> string list"

fun str_exn :: "('m, 'p) env \<Rightarrow> exn \<Rightarrow> string" where
  "str_exn env (HTTPException code detail) = str_http env code detail"
| "str_exn env (OtherException msg) = msg"

subsection \<open>ModelState and GenerateRequest\<close>

record ('m, 'p) ModelState =
  model :: "'m option"
  processor :: "'p option"

definition model_state_init :: "('m, 'p) ModelState" where
  "model_state_init = \<lparr>model = None, processor = None\<rparr>"

record GenerateRequest =
  instruction :: string
  max_new_tokens :: int
  do_sample :: bool
  temperature :: real
  top_p :: real
  video_url :: "string option"

text \<open>
  A request body before validation: every field may be absent. \<open>GenerateRequest_of\<close>
  fills in the defaults of the class; a body without \<open>instruction\<close> is rejected before
  the handler runs.
\<close>

record request_body =
  body_instruction :: "string option"
  body_max_new_tokens :: "int option"
  body_do_sample :: "bool option"
  body_temperature :: "real option"
  body_top_p :: "real option"
  body_video_url :: "string option"

definition GenerateRequest_of :: "request_body \<Rightarrow> GenerateRequest option" where
  "GenerateRequest_of b =
     (case body_instruction b of
        None \<Rightarrow> None
      | Some i \<Rightarrow> Some
          \<lparr>instruction = i,
           max_new_tokens = (case body_max_new_tokens b of None \<Rightarrow> 512 | Some n \<Rightarrow> n),
           do_sample = (case body_do_sample b of None \<Rightarrow> False | Some s \<Rightarrow> s),
           temperature = (case body_temperature b of None \<Rightarrow> 0 | Some t \<Rightarrow> t),
           top_p = (case body_top_p b of None \<Rightarrow> 1 | Some t \<Rightarrow> t),
           video_url = body_video_url b\<rparr>)"

subsection \<open>str.replace\<close>

text \<open>
  Python's \<open>s.replace(old, new)\<close>: one pass from the left over the occurrences of \<open>old\<close>
  that do not overlap. With an empty \<open>old\<close> the new text goes before every character and
  at the end.
\<close>

function str_replace :: "string \<Rightarrow> string \<Rightarrow> string \<Rightarrow> string" where
  "str_replace [] old new = (if old = [] then new else [])"
| "str_replace (c # cs) old new =
     (if old = [] then new @ c # str_replace cs old new
      else if take (length old) (c # cs) = old
           then new @ str_replace (drop (length old) (c # cs)) old new
           else c # str_replace cs old new)"
  by pat_completeness auto
termination
  by (relation "measure (\<lambda>(s, old, new). length s)") auto

subsection \<open>download\_video\<close>

definition append_file :: "files \<Rightarrow> string \<Rightarrow> string \<Rightarrow> files" where
  "append_file fs p c = fs(p \<mapsto> (case fs p of None \<Rightarrow> c | Some old \<Rightarrow> old @ c))"

text \<open>The loop over \<open>iter_content\<close>: empty chunks are skipped, a broken stream raises.\<close>

fun write_chunks :: "string \<Rightarrow> stream_item list \<Rightarrow> files \<Rightarrow> string option \<times> files" where
  "write_chunks tmp [] fs = (None, fs)"
| "write_chunks tmp (Chunk c # rest) fs =
     write_chunks tmp rest (if c \<noteq> [] then append_file fs tmp c else fs)"
| "write_chunks tmp (Broken msg # rest) fs = (Some msg, fs)"

definition download_video ::
  "('m, 'p) env \<Rightarrow> string \<Rightarrow> world \<Rightarrow> (exn + string) \<times> world" where
  "download_video env url w =
     (let w0 = record_event (HttpGet url) w in
      case http_get env url of
        ConnectionFailed msg \<Rightarrow>
          (Inl (HTTPException 400 (''Failed to download video: '' @ msg)), w0)
      | Responded status content \<Rightarrow>
          if 400 \<le> status \<and> status < 600
          then (Inl (HTTPException 400
                  (''Failed to download video: '' @ status_error env status url)), w0)
          else
            let ext = (if url_ext env url = [] then ''.mp4'' else url_ext env url);
                tmp = temp_name env (files w0) ext;
                w1 = record_event (CreateTemp tmp) (w0\<lparr>files := (files w0)(tmp \<mapsto> [])\<rparr>);
                (err, fs) = write_chunks tmp content (files w1);
                w2 = w1\<lparr>files := fs\<rparr>
            in (case err of
                  None \<Rightarrow> (Inr tmp, w2)
                | Some msg \<Rightarrow>
                    (Inl (HTTPException 400 (''Failed to download video: '' @ msg)), w2)))"

subsection \<open>generate\<close>

definition generate_kwargs :: "GenerateRequest \<Rightarrow> pydict" where
  "generate_kwargs request =
     [(''do_sample'', PyBool (do_sample request)),
      (''max_new_tokens'', PyInt (max_new_tokens request)),
      (''top_p'', PyFloat (top_p request)),
      (''temperature'', PyFloat (temperature request)),
      (''use_cache'', PyBool True)]"

definition video_prompt :: "string \<Rightarrow> string" where
  "video_prompt instr =
     (''<video>'' @ [CHR 0x0A]) @ str_replace (str_replace instr ''<image>'' []) ''<video>'' []"

definition os_unlink :: "('m, 'p) env \<Rightarrow> string \<Rightarrow> world \<Rightarrow> (exn + unit) \<times> world" where
  "os_unlink env path w =
     (let w1 = record_event (Unlink path) w in
      case files w1 path of
        None \<Rightarrow> (Inl (OtherException (enoent env path)), w1)
      | Some c \<Rightarrow> (Inr (), w1\<lparr>files := (files w1)(path := None)\<rparr>))"

text \<open>
  The body of the \<open>try\<close> that owns the \<open>finally\<close>: the two checks of the file, then the
  inner \<open>try\<close> around the generation call, whose handler turns every exception into a
  500.
\<close>

definition process_video ::
  "('m, 'p) env \<Rightarrow> 'm \<Rightarrow> 'p \<Rightarrow> GenerateRequest \<Rightarrow> string \<Rightarrow> world \<Rightarrow> (exn + string) \<times> world" where
  "process_video env m p request video_path w =
     (case files w video_path of
        None \<Rightarrow> (Inl (HTTPException 400 ''Video file not created''), w)
      | Some content \<Rightarrow>
          let video_size = length content in
          if video_size = 0
          then (Inl (HTTPException 400 ''Video file is empty''), w)
          else
            let prompt = video_prompt (instruction request);
                w1 = record_event (ProcessOne prompt (Some video_path) (generate_kwargs request)) w
            in (case process_one env m p prompt (Some video_path) (generate_kwargs request) of
                  Inl e \<Rightarrow> (Inl (HTTPException 500 (str_exn env e)), w1)
                | Inr generated_text \<Rightarrow> (Inr generated_text, w1)))"

text \<open>
  The video branch: the download, then \<open>process_video\<close> under the \<open>finally\<close> that
  unlinks the file. An exception of the \<open>finally\<close> block replaces the outcome of the
  \<open>try\<close>.
\<close>

definition generate_video ::
  "('m, 'p) env \<Rightarrow> 'm \<Rightarrow> 'p \<Rightarrow> GenerateRequest \<Rightarrow> string \<Rightarrow> world \<Rightarrow> (exn + string) \<times> world" where
  "generate_video env m p request url w =
     (case download_video env url w of
        (Inl e, w1) \<Rightarrow> (Inl e, w1)
      | (Inr video_path, w1) \<Rightarrow>
          let w2 = w1\<lparr>files := between env (files w1)\<rparr>;
              (res, w3) = process_video env m p request video_path w2;
              (u, w4) = os_unlink env video_path w3
          in (case u of
                Inl e \<Rightarrow> (Inl e, w4)
              | Inr _ \<Rightarrow> (res, w4)))"

definition generate_text ::
  "('m, 'p) env \<Rightarrow> 'm \<Rightarrow> 'p \<Rightarrow> GenerateRequest \<Rightarrow> world \<Rightarrow> (exn + string) \<times> world" where
  "generate_text env m p request w =
     (let prompt = instruction request;
          w1 = record_event (ProcessOne prompt None (generate_kwargs request)) w
      in case process_one env m p prompt None (generate_kwargs request) of
           Inl e \<Rightarrow> (Inl (HTTPException 500 (str_exn env e)), w1)
         | Inr generated_text \<Rightarrow> (Inr generated_text, w1))"

text \<open>
  The handler. The readiness check is outside the outer \<open>try\<close>; everything else is
  inside it, and its handler \<open>except Exception\<close> catches the \<open>HTTPException\<close>s raised
  inside as well and raises a 500 with the text of what it caught.
\<close>

definition generate ::
  "('m, 'p) env \<Rightarrow> ('m, 'p) ModelState \<Rightarrow> GenerateRequest \<Rightarrow> world \<Rightarrow> (exn + pydict) \<times> world" where
  "generate env model_state request w =
     (case (model model_state, processor model_state) of
        (Some m, Some p) \<Rightarrow>
          (case (case video_url request of
                   Some url \<Rightarrow> generate_video env m p request url w
                 | None \<Rightarrow> generate_text env m p request w) of
             (Inl e, w') \<Rightarrow> (Inl (HTTPException 500 (str_exn env e)), w')
           | (Inr generated_text, w') \<Rightarrow>
               (Inr [(''generated_text'', PyStr generated_text), (''status'', PyStr ''success'')], w'))
      | _ \<Rightarrow> (Inl (HTTPException 503 ''Model not loaded''), w))"

subsection \<open>health\_check\<close>

text \<open>
  \<open>next(model.parameters())\<close> raises \<open>StopIteration\<close> on a model without parameters;
  inside a coroutine that surfaces as a \<open>RuntimeError\<close>. The handler reads the model
  state and leaves it as it is.
\<close>

definition health_check ::
  "('m, 'p) env \<Rightarrow> ('m, 'p) ModelState \<Rightarrow> (exn + pydict) \<times> ('m, 'p) ModelState" where
  "health_check env model_state =
     (case (case model model_state of
              None \<Rightarrow> Inr ''not loaded''
            | Some m \<Rightarrow>
                (case param_devices env m of
                   [] \<Rightarrow> Inl (OtherException ''coroutine raised StopIteration'')
                 | d # ds \<Rightarrow> Inr d)) of
        Inl e \<Rightarrow> (Inl e, model_state)
      | Inr device \<Rightarrow>
          (Inr [(''status'', PyStr ''healthy''),
                (''model_loaded'', PyBool (model model_state \<noteq> None)),
                (''device'', PyStr device)], model_state))"

subsection \<open>Sample collaborators\<close>

text \<open>
  Concrete collaborators for running the handlers: the GET answers \<open>r\<close>, other
  processes do \<open>b\<close> to the file system, and the generation call gives \<open>out\<close>. A model
  handle is the list of the devices of its parameters.
\<close>

definition sample_env ::
  "http_result \<Rightarrow> (files \<Rightarrow> files) \<Rightarrow> (exn + string) \<Rightarrow> (string list, unit) env" where
  "sample_env r b out =
     \<lparr>http_get = (\<lambda>url. r),
      status_error = (\<lambda>code url. ''Client Error for url: '' @ url),
      url_ext = (\<lambda>url. ''.mp4''),
      temp_name = (\<lambda>fs ext. ''/tmp/tmpvid'' @ ext),
      between = b,
      process_one = (\<lambda>m p prompt video_file kw. out),
      str_http = (\<lambda>code detail. detail),
      enoent = (\<lambda>path. ''No such file: '' @ path),
      param_devices = (\<lambda>m. m)\<rparr>"

definition loaded_state :: "(string list, unit) ModelState" where
  "loaded_state = \<lparr>model = Some [''cuda:0''], processor = Some ()\<rparr>"

definition empty_world :: world where
  "empty_world = \<lparr>files = Map.empty, trace = []\<rparr>"

definition sample_request :: "string \<Rightarrow> string option \<Rightarrow> GenerateRequest" where
  "sample_request instr url =
     \<lparr>instruction = instr, max_new_tokens = 512, do_sample = False,
      temperature = 0, top_p = 1, video_url = url\<rparr>"

text \<open>
  Collaborators whose generation call checks what it is given: it answers with a text
  made from the prompt when the parameter record is the expected one, and raises
  otherwise.
\<close>

definition checking_env :: "pydict \<Rightarrow> http_result \<Rightarrow> (string list, unit) env" where
  "checking_env expected r =
     (sample_env r id (Inr []))\<lparr>process_one :=
        (\<lambda>m p prompt video_file kw.
           if kw = expected then Inr (''generated for '' @ prompt)
           else Inl (OtherException ''unexpected arguments''))\<rparr>"

section \<open>Properties\<close>

subsection \<open>Effects of the parts of the handler\<close>

lemma request_events_self [simp]: "request_events w w = []"
  by (simp add: request_events_def)

lemma request_events_app: "trace w' = trace w @ evs \<Longrightarrow> request_events w w' = evs"
  by (simp add: request_events_def)

lemma download_video_trace:
  "download_video env url w = (r, w') \<Longrightarrow>
     (case r of
        Inr path \<Rightarrow> trace w' = trace w @ [HttpGet url, CreateTemp path]
      | Inl e \<Rightarrow> trace w' = trace w @ [HttpGet url] \<or>
                 (\<exists>tmp. trace w' = trace w @ [HttpGet url, CreateTemp tmp]))"
  by (auto simp: download_video_def record_event_def Let_def
           split: http_result.splits if_splits prod.splits option.splits)

lemma process_video_trace:
  "process_video env m p request path w = (r, w') \<Longrightarrow>
     files w' = files w \<and>
     (trace w' = trace w \<or>
      trace w' = trace w @ [ProcessOne (video_prompt (instruction request)) (Some path)
                              (generate_kwargs request)])"
  by (auto simp: process_video_def record_event_def Let_def
           split: option.splits if_splits sum.splits)

lemma os_unlink_effect:
  "os_unlink env path w = (u, w') \<Longrightarrow>
     trace w' = trace w @ [Unlink path] \<and> files w' path = None"
  by (auto simp: os_unlink_def record_event_def Let_def split: option.splits)

lemma generate_video_failed:
  "download_video env url w = (Inl e, w1) \<Longrightarrow>
     generate_video env m p request url w = (Inl e, w1)"
  by (simp add: generate_video_def)

text \<open>
  Once the download has returned a path, the request ends with the unlink of that path,
  after at most one generation call.
\<close>

lemma generate_video_fetched:
  assumes d: "download_video env url w = (Inr path, w1)"
    and g: "generate_video env m p request url w = (r, w')"
  shows "files w' path = None \<and>
         (trace w' = trace w @ [HttpGet url, CreateTemp path, Unlink path] \<or>
          trace w' = trace w @ [HttpGet url, CreateTemp path,
             ProcessOne (video_prompt (instruction request)) (Some path) (generate_kwargs request),
             Unlink path])"
proof -
  let ?w2 = "w1\<lparr>files := between env (files w1)\<rparr>"
  obtain res w3 where pv: "process_video env m p request path ?w2 = (res, w3)"
    by (cases "process_video env m p request path ?w2")
  obtain u w4 where ul: "os_unlink env path w3 = (u, w4)"
    by (cases "os_unlink env path w3")
  from d have t1: "trace w1 = trace w @ [HttpGet url, CreateTemp path]"
    using download_video_trace [of env url w "Inr path" w1] by simp
  from pv have t3: "trace w3 = trace ?w2 \<or>
      trace w3 = trace ?w2 @ [ProcessOne (video_prompt (instruction request)) (Some path)
                              (generate_kwargs request)]"
    using process_video_trace [OF pv] by simp
  from ul have t4: "trace w4 = trace w3 @ [Unlink path]" and f4: "files w4 path = None"
    using os_unlink_effect [OF ul] by simp_all
  from g d pv ul have "w' = w4"
    by (auto simp: generate_video_def Let_def split: sum.splits)
  with t1 t3 t4 f4 show ?thesis by auto
qed

lemma generate_text_trace:
  "generate_text env m p request w = (r, w') \<Longrightarrow>
     files w' = files w \<and>
     trace w' = trace w @ [ProcessOne (instruction request) None (generate_kwargs request)]"
  by (auto simp: generate_text_def record_event_def Let_def split: sum.splits)

lemma generate_unfold:
  "model st = Some m \<Longrightarrow> processor st = Some p \<Longrightarrow>
   snd (generate env st request w) =
     snd (case video_url request of
            Some url \<Rightarrow> generate_video env m p request url w
          | None \<Rightarrow> generate_text env m p request w)"
  by (auto simp: generate_def split: prod.splits sum.splits option.splits)

lemma generate_not_loaded:
  "model st = None \<or> processor st = None \<Longrightarrow>
   generate env st request w = (Inl (HTTPException 503 ''Model not loaded''), w)"
  by (auto simp: generate_def split: option.splits)

text \<open>
  Every generation call of a request carries the parameter record built from the request;
  its prompt and video file are those of the branch the request takes.
\<close>

lemma generate_processone_events:
  assumes "ProcessOne prompt vf kw \<in> set (request_events w (snd (generate env st request w)))"
  shows "kw = generate_kwargs request \<and>
         (case video_url request of
            None \<Rightarrow> prompt = instruction request \<and> vf = None
          | Some url \<Rightarrow> prompt = video_prompt (instruction request) \<and>
                          (\<exists>path. vf = Some path \<and> fst (download_video env url w) = Inr path))"
proof (cases "model st = None \<or> processor st = None")
  case True
  with assms show ?thesis using generate_not_loaded [of st env request w] by simp
next
  case False
  then obtain m p where mp: "model st = Some m" "processor st = Some p" by auto
  show ?thesis
  proof (cases "video_url request")
    case None
    obtain r w' where gt: "generate_text env m p request w = (r, w')"
      by (cases "generate_text env m p request w")
    from generate_unfold [OF mp, of env request w] None gt
    have "snd (generate env st request w) = w'" by simp
    with assms generate_text_trace [OF gt] None show ?thesis
      by (simp add: request_events_def)
  next
    case (Some url)
    obtain r w' where gv: "generate_video env m p request url w = (r, w')"
      by (cases "generate_video env m p request url w")
    from generate_unfold [OF mp, of env request w] Some gv
    have w': "snd (generate env st request w) = w'" by simp
    obtain d w1 where dv: "download_video env url w = (d, w1)"
      by (cases "download_video env url w")
    show ?thesis
    proof (cases d)
      case (Inl e)
      with dv gv have "w' = w1" by (simp add: generate_video_failed)
      with download_video_trace [OF dv] Inl assms w' show ?thesis
        by (auto simp: request_events_def)
    next
      case (Inr path)
      with generate_video_fetched [of env url w path w1 m p request r w'] dv gv assms w' Some
      show ?thesis by (auto simp: request_events_def)
    qed
  qed
qed

text \<open>
  The events of a request with a video URL, by the outcome of the download.
\<close>

lemma generate_video_events:
  assumes v: "video_url request = Some url"
    and mp: "model st = Some m" "processor st = Some p"
  shows "(\<forall>e. fst (download_video env url w) = Inl e \<longrightarrow>
            snd (generate env st request w) = snd (download_video env url w)) \<and>
         (\<forall>path. fst (download_video env url w) = Inr path \<longrightarrow>
            files (snd (generate env st request w)) path = None \<and>
            (request_events w (snd (generate env st request w)) =
               [HttpGet url, CreateTemp path, Unlink path] \<or>
             request_events w (snd (generate env st request w)) =
               [HttpGet url, CreateTemp path,
                ProcessOne (video_prompt (instruction request)) (Some path)
                  (generate_kwargs request),
                Unlink path]))"
proof -
  obtain r w' where gv: "generate_video env m p request url w = (r, w')"
    by (cases "generate_video env m p request url w")
  from generate_unfold [OF mp, of env request w] v gv
  have w': "snd (generate env st request w) = w'" by simp
  obtain d w1 where dv: "download_video env url w = (d, w1)"
    by (cases "download_video env url w")
  show ?thesis
  proof (cases d)
    case (Inl e)
    with dv gv have "w' = w1" by (simp add: generate_video_failed)
    with Inl dv w' show ?thesis by simp
  next
    case (Inr path)
    with generate_video_fetched [of env url w path w1 m p request r w'] dv gv w'
    show ?thesis by (auto simp: request_events_def)
  qed
qed

lemma download_video_events:
  "(\<forall>e. fst (download_video env url w) = Inl e \<longrightarrow>
      request_events w (snd (download_video env url w)) = [HttpGet url] \<or>
      (\<exists>tmp. request_events w (snd (download_video env url w)) = [HttpGet url, CreateTemp tmp]))
   \<and> (\<forall>path. fst (download_video env url w) = Inr path \<longrightarrow>
      request_events w (snd (download_video env url w)) = [HttpGet url, CreateTemp path])"
proof -
  obtain d w1 where dv: "download_video env url w = (d, w1)"
    by (cases "download_video env url w")
  from download_video_trace [OF dv] dv show ?thesis
    by (cases d) (auto simp: request_events_def)
qed

text \<open>
  The handler answers 200, 500 or 503 and nothing else: whatever is raised inside the
  outer \<open>try\<close> leaves it as a 500.
\<close>

lemma generate_status:
  "fst (http_response (fst (generate env st request w))) \<in> {200, 500, 503}"
  by (auto simp: generate_def split: option.splits prod.splits sum.splits)

text \<open>
  A request that reaches the generation call: its events, and its outcome as a function
  of what the call returns for exactly the prompt, the video file and the parameter record
  of the request.
\<close>

lemma generate_text_call:
  assumes "model st = Some m" "processor st = Some p" "video_url request = None"
  shows "request_events w (snd (generate env st request w)) =
           [ProcessOne (instruction request) None (generate_kwargs request)] \<and>
         fst (generate env st request w) =
           (case process_one env m p (instruction request) None (generate_kwargs request) of
              Inl e \<Rightarrow> Inl (HTTPException 500 (str_http env 500 (str_exn env e)))
            | Inr t \<Rightarrow> Inr [(''generated_text'', PyStr t), (''status'', PyStr ''success'')])"
  using assms
  by (simp add: generate_def generate_text_def record_event_def request_events_def Let_def
      split: sum.splits)

lemma generate_video_call:
  assumes mp: "model st = Some m" "processor st = Some p"
    and v: "video_url request = Some url"
    and d: "download_video env url w = (Inr path, w1)"
    and f: "between env (files w1) path = Some content" "content \<noteq> []"
  shows "request_events w (snd (generate env st request w)) =
           [HttpGet url, CreateTemp path,
            ProcessOne (video_prompt (instruction request)) (Some path) (generate_kwargs request),
            Unlink path] \<and>
         fst (generate env st request w) =
           (case process_one env m p (video_prompt (instruction request)) (Some path)
                   (generate_kwargs request) of
              Inl e \<Rightarrow> Inl (HTTPException 500 (str_http env 500 (str_exn env e)))
            | Inr t \<Rightarrow> Inr [(''generated_text'', PyStr t), (''status'', PyStr ''success'')])"
proof -
  from d have t1: "trace w1 = trace w @ [HttpGet url, CreateTemp path]"
    using download_video_trace [of env url w "Inr path" w1] by simp
  show ?thesis
    using mp v d f t1
    by (simp add: generate_def generate_video_def process_video_def os_unlink_def
        record_event_def request_events_def Let_def split: sum.splits)
qed

subsection \<open>Runs with the sample collaborators\<close>

lemmas sample_defs = sample_env_def sample_request_def loaded_state_def empty_world_def

lemmas handler_defs = generate_def generate_video_def generate_text_def process_video_def
  os_unlink_def download_video_def record_event_def request_events_def append_file_def Let_def

lemma sample_fetch_ok:
  "fst (download_video (sample_env (Responded 200 [Chunk ''abc'']) id out) url empty_world) =
     Inr ''/tmp/tmpvid.mp4''"
  by (simp add: handler_defs sample_defs)

lemma sample_fetch_404:
  "fst (download_video (sample_env (Responded 404 []) id out) url empty_world) =
     Inl (HTTPException 400 (''Failed to download video: Client Error for url: '' @ url))"
  by (simp add: handler_defs sample_defs)

lemma sample_run_ok:
  "request_events empty_world
     (snd (generate (sample_env (Responded 200 [Chunk ''abc'']) id (Inr out)) loaded_state
        (sample_request instr (Some url)) empty_world)) =
     [HttpGet url, CreateTemp ''/tmp/tmpvid.mp4'',
      ProcessOne (video_prompt instr) (Some ''/tmp/tmpvid.mp4'')
        (generate_kwargs (sample_request instr (Some url))),
      Unlink ''/tmp/tmpvid.mp4'']"
  by (simp add: handler_defs sample_defs)

lemma sample_run_inference_error:
  "request_events empty_world
     (snd (generate (sample_env (Responded 200 [Chunk ''abc'']) id (Inl (OtherException msg)))
        loaded_state (sample_request instr (Some url)) empty_world)) =
     [HttpGet url, CreateTemp ''/tmp/tmpvid.mp4'',
      ProcessOne (video_prompt instr) (Some ''/tmp/tmpvid.mp4'')
        (generate_kwargs (sample_request instr (Some url))),
      Unlink ''/tmp/tmpvid.mp4''] \<and>
   http_response (fst (generate (sample_env (Responded 200 [Chunk ''abc'']) id
        (Inl (OtherException msg))) loaded_state (sample_request instr (Some url)) empty_world)) =
     (500, JsonBody [(''detail'', PyStr msg)])"
  by (simp add: handler_defs sample_defs)

lemma sample_run_404:
  "request_events empty_world
     (snd (generate (sample_env (Responded 404 []) id out) loaded_state
        (sample_request instr (Some url)) empty_world)) = [HttpGet url]"
  by (simp add: handler_defs sample_defs)

lemma sample_run_ok_files:
  "files (snd (generate (sample_env (Responded 200 [Chunk ''abc'']) id out) loaded_state
        (sample_request instr (Some url)) empty_world)) ''/tmp/tmpvid.mp4'' = None"
  by (simp add: handler_defs sample_defs split: sum.splits)

lemma checking_fetch_ok:
  "download_video (checking_env expected (Responded 200 [Chunk ''abc''])) url empty_world =
     (Inr ''/tmp/tmpvid.mp4'',
      snd (download_video (checking_env expected (Responded 200 [Chunk ''abc''])) url empty_world))
   \<and> between (checking_env expected (Responded 200 [Chunk ''abc'']))
        (files (snd (download_video (checking_env expected (Responded 200 [Chunk ''abc'']))
           url empty_world))) ''/tmp/tmpvid.mp4'' = Some ''abc''"
  by (simp add: checking_env_def handler_defs sample_defs)

text \<open>
  A stream that breaks after the temporary file has been created: the download raises, no
  path reaches the handler, and the file stays on disk.
\<close>

lemma download_broken_stream_leaves_file:
  "http_response (fst (generate (sample_env (Responded 200 [Chunk ''abc'', Broken ''reset'']) id
        (Inr ''out'')) loaded_state (sample_request ''hi'' (Some ''http://x/y.mp4'')) empty_world)) =
     (500, JsonBody [(''detail'', PyStr ''Failed to download video: reset'')]) \<and>
   request_events empty_world
     (snd (generate (sample_env (Responded 200 [Chunk ''abc'', Broken ''reset'']) id
        (Inr ''out'')) loaded_state (sample_request ''hi'' (Some ''http://x/y.mp4'')) empty_world)) =
     [HttpGet ''http://x/y.mp4'', CreateTemp ''/tmp/tmpvid.mp4''] \<and>
   files (snd (generate (sample_env (Responded 200 [Chunk ''abc'', Broken ''reset'']) id
        (Inr ''out'')) loaded_state (sample_request ''hi'' (Some ''http://x/y.mp4'')) empty_world))
     ''/tmp/tmpvid.mp4'' = Some ''abc''"
  by (simp add: handler_defs sample_defs)

text \<open>
  Each marker is removed in one pass, so the two halves of a marker around a removed one
  join into a marker that stays.
\<close>

lemma video_prompt_marker_left:
  "video_prompt ''<vid<video>eo>'' = ''<video>'' @ [CHR 0x0A] @ ''<video>''"
  by (simp add: video_prompt_def)

subsection \<open>The readiness check\<close>

text \<open>
  C4. A request that arrives while the model state holds no model or no processor is
  answered 503 with the detail "Model not loaded", and the world is as it was before: the
  request has added no event to the trace, so neither a download nor a generation call
  has happened.
\<close>

theorem generate_not_ready:
  assumes "model st = None \<or> processor st = None"
  shows "http_response (fst (generate env st request w)) =
           (503, JsonBody [(''detail'', PyStr ''Model not loaded'')]) \<and>
         snd (generate env st request w) = w \<and>
         request_events w (snd (generate env st request w)) = []"
  using generate_not_loaded [OF assms, of env request w] by simp

theorem generate_not_ready_witness:
  "(model (model_state_init :: (string list, unit) ModelState) = None \<or>
    processor (model_state_init :: (string list, unit) ModelState) = None) \<and>
   http_response (fst (generate (sample_env (Responded 200 [Chunk ''abc'']) id (Inr ''out''))
        model_state_init (sample_request ''hi'' (Some ''http://x/y.mp4'')) empty_world)) =
     (503, JsonBody [(''detail'', PyStr ''Model not loaded'')]) \<and>
   snd (generate (sample_env (Responded 200 [Chunk ''abc'']) id (Inr ''out''))
        model_state_init (sample_request ''hi'' (Some ''http://x/y.mp4'')) empty_world) = empty_world"
proof -
  have h: "model (model_state_init :: (string list, unit) ModelState) = None \<or>
    processor (model_state_init :: (string list, unit) ModelState) = None"
    by (simp add: model_state_init_def)
  show ?thesis
    using h generate_not_ready [OF h, of "sample_env (Responded 200 [Chunk ''abc'']) id (Inr ''out'')"
        "sample_request ''hi'' (Some ''http://x/y.mp4'')" empty_world]
    by simp
qed

subsection \<open>Requests without a video\<close>

text \<open>
  C5. For a request without a video URL, with a model and a processor loaded and a
  generation call that returns the text \<open>t\<close>, the response is 200 with the body
  \<open>{"generated_text": t, "status": "success"}\<close>, and the one external call of the
  request is the generation call with the instruction itself as prompt and no video file.
\<close>

theorem generate_text_only_success:
  assumes "video_url request = None"
    and "model st = Some m" and "processor st = Some p"
    and "process_one env m p (instruction request) None (generate_kwargs request) = Inr t"
  shows "http_response (fst (generate env st request w)) =
           (200, JsonBody [(''generated_text'', PyStr t), (''status'', PyStr ''success'')]) \<and>
         request_events w (snd (generate env st request w)) =
           [ProcessOne (instruction request) None (generate_kwargs request)]"
  using assms
  by (simp add: generate_def generate_text_def record_event_def request_events_def Let_def)

theorem generate_text_only_success_witness:
  "video_url (sample_request ''Describe this.'' None) = None \<and>
   model loaded_state = Some [''cuda:0''] \<and> processor loaded_state = Some () \<and>
   http_response (fst (generate (sample_env (ConnectionFailed ''refused'') id (Inr ''A cat.''))
        loaded_state (sample_request ''Describe this.'' None) empty_world)) =
     (200, JsonBody [(''generated_text'', PyStr ''A cat.''), (''status'', PyStr ''success'')]) \<and>
   request_events empty_world
     (snd (generate (sample_env (ConnectionFailed ''refused'') id (Inr ''A cat.''))
        loaded_state (sample_request ''Describe this.'' None) empty_world)) =
     [ProcessOne ''Describe this.'' None
        (generate_kwargs (sample_request ''Describe this.'' None))]"
proof -
  have h1: "video_url (sample_request ''Describe this.'' None) = None"
    by (simp add: sample_request_def)
  have h2: "model loaded_state = Some [''cuda:0'']" and h3: "processor loaded_state = Some ()"
    by (simp_all add: loaded_state_def)
  have h4: "process_one (sample_env (ConnectionFailed ''refused'') id (Inr ''A cat.''))
      [''cuda:0''] () (instruction (sample_request ''Describe this.'' None)) None
      (generate_kwargs (sample_request ''Describe this.'' None)) = Inr ''A cat.''"
    by (simp add: sample_env_def)
  have i: "instruction (sample_request ''Describe this.'' None) = ''Describe this.''"
    by (simp add: sample_request_def)
  show ?thesis
    using h1 h2 h3 generate_text_only_success [OF h1 h2 h3 h4, of empty_world]
    by (simp add: i)
qed

text \<open>
  C6. A request without a video URL leaves the file system as it was, and none of its
  events is an HTTP GET or the creation of a temporary file.
\<close>

theorem generate_text_only_no_temp_file:
  assumes "video_url request = None"
  shows "files (snd (generate env st request w)) = files w \<and>
         (\<forall>ev \<in> set (request_events w (snd (generate env st request w))).
            \<not> is_HttpGet ev \<and> \<not> is_CreateTemp ev)"
proof (cases "model st = None \<or> processor st = None")
  case True
  then show ?thesis using generate_not_loaded [of st env request w] by simp
next
  case False
  then obtain m p where mp: "model st = Some m" "processor st = Some p" by auto
  obtain r w' where gt: "generate_text env m p request w = (r, w')"
    by (cases "generate_text env m p request w")
  from generate_unfold [OF mp, of env request w] assms gt
  have "snd (generate env st request w) = w'" by simp
  moreover from gt have "files w' = files w"
    and "request_events w w' = [ProcessOne (instruction request) None (generate_kwargs request)]"
    using generate_text_trace [OF gt] by (simp_all add: request_events_def)
  ultimately show ?thesis by simp
qed

theorem generate_text_only_no_temp_file_witness:
  "video_url (sample_request ''Describe this.'' None) = None \<and>
   files (snd (generate (sample_env (ConnectionFailed ''refused'') id (Inr ''A cat.''))
        loaded_state (sample_request ''Describe this.'' None) empty_world)) = files empty_world \<and>
   request_events empty_world
     (snd (generate (sample_env (ConnectionFailed ''refused'') id (Inr ''A cat.''))
        loaded_state (sample_request ''Describe this.'' None) empty_world)) \<noteq> [] \<and>
   filter (\<lambda>ev. is_HttpGet ev \<or> is_CreateTemp ev) (request_events empty_world
     (snd (generate (sample_env (ConnectionFailed ''refused'') id (Inr ''A cat.''))
        loaded_state (sample_request ''Describe this.'' None) empty_world))) = []"
proof -
  have h: "video_url (sample_request ''Describe this.'' None) = None"
    by (simp add: sample_request_def)
  have ne: "request_events empty_world
     (snd (generate (sample_env (ConnectionFailed ''refused'') id (Inr ''A cat.''))
        loaded_state (sample_request ''Describe this.'' None) empty_world)) \<noteq> []"
    by (simp add: generate_def generate_text_def record_event_def request_events_def
        sample_env_def sample_request_def loaded_state_def empty_world_def Let_def)
  show ?thesis
    using h ne generate_text_only_no_temp_file [OF h,
        of "sample_env (ConnectionFailed ''refused'') id (Inr ''A cat.'')" loaded_state empty_world]
    by (simp add: filter_empty_conv)
qed

subsection \<open>The generation parameters\<close>

text \<open>
  C7. Every generation call of a request carries the dict with exactly the five keys
  \<open>do_sample\<close>, \<open>max_new_tokens\<close>, \<open>top_p\<close>, \<open>temperature\<close> and \<open>use_cache\<close>, the first
  four with the values of the request and the last one true. The call is made with that
  dict: a loaded request without a video makes it as its one event, a loaded request whose
  video was fetched into a non-empty file makes it too, and in both the response is the
  text the call returns for that dict. A body becomes a request field by field: a field
  the body gives keeps its value, and a field it leaves out is \<open>max_new_tokens\<close> 512,
  \<open>do_sample\<close> false, \<open>temperature\<close> 0.0, \<open>top_p\<close> 1.0.
\<close>

theorem generate_kwargs_forwarded:
  "(\<forall>prompt vf kw.
      ProcessOne prompt vf kw \<in> set (request_events w (snd (generate env st request w))) \<longrightarrow>
      kw = [(''do_sample'', PyBool (do_sample request)),
            (''max_new_tokens'', PyInt (max_new_tokens request)),
            (''top_p'', PyFloat (top_p request)),
            (''temperature'', PyFloat (temperature request)),
            (''use_cache'', PyBool True)]) \<and>
   (\<forall>m p. model st = Some m \<and> processor st = Some p \<and> video_url request = None \<longrightarrow>
      request_events w (snd (generate env st request w)) =
        [ProcessOne (instruction request) None
           [(''do_sample'', PyBool (do_sample request)),
            (''max_new_tokens'', PyInt (max_new_tokens request)),
            (''top_p'', PyFloat (top_p request)),
            (''temperature'', PyFloat (temperature request)),
            (''use_cache'', PyBool True)]] \<and>
      (\<forall>t. process_one env m p (instruction request) None
             [(''do_sample'', PyBool (do_sample request)),
              (''max_new_tokens'', PyInt (max_new_tokens request)),
              (''top_p'', PyFloat (top_p request)),
              (''temperature'', PyFloat (temperature request)),
              (''use_cache'', PyBool True)] = Inr t \<longrightarrow>
           fst (generate env st request w) =
             Inr [(''generated_text'', PyStr t), (''status'', PyStr ''success'')])) \<and>
   (\<forall>m p url path w1 content.
      model st = Some m \<and> processor st = Some p \<and> video_url request = Some url \<and>
      download_video env url w = (Inr path, w1) \<and>
      between env (files w1) path = Some content \<and> content \<noteq> [] \<longrightarrow>
      ProcessOne (video_prompt (instruction request)) (Some path)
           [(''do_sample'', PyBool (do_sample request)),
            (''max_new_tokens'', PyInt (max_new_tokens request)),
            (''top_p'', PyFloat (top_p request)),
            (''temperature'', PyFloat (temperature request)),
            (''use_cache'', PyBool True)]
        \<in> set (request_events w (snd (generate env st request w))) \<and>
      (\<forall>t. process_one env m p (video_prompt (instruction request)) (Some path)
             [(''do_sample'', PyBool (do_sample request)),
              (''max_new_tokens'', PyInt (max_new_tokens request)),
              (''top_p'', PyFloat (top_p request)),
              (''temperature'', PyFloat (temperature request)),
              (''use_cache'', PyBool True)] = Inr t \<longrightarrow>
           fst (generate env st request w) =
             Inr [(''generated_text'', PyStr t), (''status'', PyStr ''success'')])) \<and>
   (\<forall>i. body_instruction b = Some i \<longrightarrow>
      (\<exists>r. GenerateRequest_of b = Some r \<and> instruction r = i \<and>
           video_url r = body_video_url b \<and>
           (body_max_new_tokens b = None \<longrightarrow> max_new_tokens r = 512) \<and>
           (\<forall>n. body_max_new_tokens b = Some n \<longrightarrow> max_new_tokens r = n) \<and>
           (body_do_sample b = None \<longrightarrow> do_sample r = False) \<and>
           (\<forall>s. body_do_sample b = Some s \<longrightarrow> do_sample r = s) \<and>
           (body_temperature b = None \<longrightarrow> temperature r = 0) \<and>
           (\<forall>x. body_temperature b = Some x \<longrightarrow> temperature r = x) \<and>
           (body_top_p b = None \<longrightarrow> top_p r = 1) \<and>
           (\<forall>x. body_top_p b = Some x \<longrightarrow> top_p r = x)))"
proof (intro conjI)
  show "\<forall>prompt vf kw.
      ProcessOne prompt vf kw \<in> set (request_events w (snd (generate env st request w))) \<longrightarrow>
      kw = [(''do_sample'', PyBool (do_sample request)),
            (''max_new_tokens'', PyInt (max_new_tokens request)),
            (''top_p'', PyFloat (top_p request)),
            (''temperature'', PyFloat (temperature request)),
            (''use_cache'', PyBool True)]"
    using generate_processone_events [of _ _ _ w env st request]
    by (auto simp: generate_kwargs_def)
next
  show "\<forall>m p. model st = Some m \<and> processor st = Some p \<and> video_url request = None \<longrightarrow>
      request_events w (snd (generate env st request w)) =
        [ProcessOne (instruction request) None
           [(''do_sample'', PyBool (do_sample request)),
            (''max_new_tokens'', PyInt (max_new_tokens request)),
            (''top_p'', PyFloat (top_p request)),
            (''temperature'', PyFloat (temperature request)),
            (''use_cache'', PyBool True)]] \<and>
      (\<forall>t. process_one env m p (instruction request) None
             [(''do_sample'', PyBool (do_sample request)),
              (''max_new_tokens'', PyInt (max_new_tokens request)),
              (''top_p'', PyFloat (top_p request)),
              (''temperature'', PyFloat (temperature request)),
              (''use_cache'', PyBool True)] = Inr t \<longrightarrow>
           fst (generate env st request w) =
             Inr [(''generated_text'', PyStr t), (''status'', PyStr ''success'')])"
    using generate_text_call [of st _ _ request w env]
    by (simp add: generate_kwargs_def)
next
  show "\<forall>m p url path w1 content.
      model st = Some m \<and> processor st = Some p \<and> video_url request = Some url \<and>
      download_video env url w = (Inr path, w1) \<and>
      between env (files w1) path = Some content \<and> content \<noteq> [] \<longrightarrow>
      ProcessOne (video_prompt (instruction request)) (Some path)
           [(''do_sample'', PyBool (do_sample request)),
            (''max_new_tokens'', PyInt (max_new_tokens request)),
            (''top_p'', PyFloat (top_p request)),
            (''temperature'', PyFloat (temperature request)),
            (''use_cache'', PyBool True)]
        \<in> set (request_events w (snd (generate env st request w))) \<and>
      (\<forall>t. process_one env m p (video_prompt (instruction request)) (Some path)
             [(''do_sample'', PyBool (do_sample request)),
              (''max_new_tokens'', PyInt (max_new_tokens request)),
              (''top_p'', PyFloat (top_p request)),
              (''temperature'', PyFloat (temperature request)),
              (''use_cache'', PyBool True)] = Inr t \<longrightarrow>
           fst (generate env st request w) =
             Inr [(''generated_text'', PyStr t), (''status'', PyStr ''success'')])"
    using generate_video_call [of st _ _ request _ env w]
    by (simp add: generate_kwargs_def)
next
  show "\<forall>i. body_instruction b = Some i \<longrightarrow>
      (\<exists>r. GenerateRequest_of b = Some r \<and> instruction r = i \<and>
           video_url r = body_video_url b \<and>
           (body_max_new_tokens b = None \<longrightarrow> max_new_tokens r = 512) \<and>
           (\<forall>n. body_max_new_tokens b = Some n \<longrightarrow> max_new_tokens r = n) \<and>
           (body_do_sample b = None \<longrightarrow> do_sample r = False) \<and>
           (\<forall>s. body_do_sample b = Some s \<longrightarrow> do_sample r = s) \<and>
           (body_temperature b = None \<longrightarrow> temperature r = 0) \<and>
           (\<forall>x. body_temperature b = Some x \<longrightarrow> temperature r = x) \<and>
           (body_top_p b = None \<longrightarrow> top_p r = 1) \<and>
           (\<forall>x. body_top_p b = Some x \<longrightarrow> top_p r = x))"
    by (simp add: GenerateRequest_of_def)
qed

theorem generate_kwargs_forwarded_witness:
  "GenerateRequest_of \<lparr>body_instruction = Some ''hi'', body_max_new_tokens = Some 64,
        body_do_sample = Some True, body_temperature = Some (7 / 10),
        body_top_p = Some (9 / 10), body_video_url = Some ''http://x/y.mp4''\<rparr> =
     Some \<lparr>instruction = ''hi'', max_new_tokens = 64, do_sample = True,
           temperature = 7 / 10, top_p = 9 / 10, video_url = Some ''http://x/y.mp4''\<rparr> \<and>
   GenerateRequest_of \<lparr>body_instruction = Some ''hi'', body_max_new_tokens = None,
        body_do_sample = None, body_temperature = Some (7 / 10),
        body_top_p = None, body_video_url = None\<rparr> =
     Some \<lparr>instruction = ''hi'', max_new_tokens = 512, do_sample = False,
           temperature = 7 / 10, top_p = 1, video_url = None\<rparr> \<and>
   model loaded_state = Some [''cuda:0''] \<and> processor loaded_state = Some () \<and>
   fst (download_video
          (checking_env [(''do_sample'', PyBool True), (''max_new_tokens'', PyInt 64),
             (''top_p'', PyFloat (9 / 10)), (''temperature'', PyFloat (7 / 10)),
             (''use_cache'', PyBool True)] (Responded 200 [Chunk ''abc'']))
          ''http://x/y.mp4'' empty_world) = Inr ''/tmp/tmpvid.mp4'' \<and>
   ProcessOne (video_prompt ''hi'') (Some ''/tmp/tmpvid.mp4'')
       [(''do_sample'', PyBool True), (''max_new_tokens'', PyInt 64),
        (''top_p'', PyFloat (9 / 10)), (''temperature'', PyFloat (7 / 10)),
        (''use_cache'', PyBool True)]
     \<in> set (request_events empty_world
        (snd (generate
          (checking_env [(''do_sample'', PyBool True), (''max_new_tokens'', PyInt 64),
             (''top_p'', PyFloat (9 / 10)), (''temperature'', PyFloat (7 / 10)),
             (''use_cache'', PyBool True)] (Responded 200 [Chunk ''abc'']))
          loaded_state
          \<lparr>instruction = ''hi'', max_new_tokens = 64, do_sample = True,
           temperature = 7 / 10, top_p = 9 / 10, video_url = Some ''http://x/y.mp4''\<rparr>
          empty_world))) \<and>
   fst (generate
          (checking_env [(''do_sample'', PyBool True), (''max_new_tokens'', PyInt 64),
             (''top_p'', PyFloat (9 / 10)), (''temperature'', PyFloat (7 / 10)),
             (''use_cache'', PyBool True)] (Responded 200 [Chunk ''abc'']))
          loaded_state
          \<lparr>instruction = ''hi'', max_new_tokens = 64, do_sample = True,
           temperature = 7 / 10, top_p = 9 / 10, video_url = Some ''http://x/y.mp4''\<rparr>
          empty_world) =
     Inr [(''generated_text'', PyStr (''generated for '' @ video_prompt ''hi'')),
          (''status'', PyStr ''success'')] \<and>
   request_events empty_world
     (snd (generate
        (checking_env [(''do_sample'', PyBool False), (''max_new_tokens'', PyInt 512),
           (''top_p'', PyFloat 1), (''temperature'', PyFloat (7 / 10)),
           (''use_cache'', PyBool True)] (ConnectionFailed ''refused''))
        loaded_state
        \<lparr>instruction = ''hi'', max_new_tokens = 512, do_sample = False,
         temperature = 7 / 10, top_p = 1, video_url = None\<rparr> empty_world)) =
     [ProcessOne ''hi'' None
        [(''do_sample'', PyBool False), (''max_new_tokens'', PyInt 512),
         (''top_p'', PyFloat 1), (''temperature'', PyFloat (7 / 10)),
         (''use_cache'', PyBool True)]] \<and>
   fst (generate
        (checking_env [(''do_sample'', PyBool False), (''max_new_tokens'', PyInt 512),
           (''top_p'', PyFloat 1), (''temperature'', PyFloat (7 / 10)),
           (''use_cache'', PyBool True)] (ConnectionFailed ''refused''))
        loaded_state
        \<lparr>instruction = ''hi'', max_new_tokens = 512, do_sample = False,
         temperature = 7 / 10, top_p = 1, video_url = None\<rparr> empty_world) =
     Inr [(''generated_text'', PyStr ''generated for hi''), (''status'', PyStr ''success'')]"
proof -
  let ?kw = "[(''do_sample'', PyBool True), (''max_new_tokens'', PyInt 64),
             (''top_p'', PyFloat (9 / 10)), (''temperature'', PyFloat (7 / 10)),
             (''use_cache'', PyBool True)]"
  let ?kwd = "[(''do_sample'', PyBool False), (''max_new_tokens'', PyInt 512),
           (''top_p'', PyFloat 1), (''temperature'', PyFloat (7 / 10)),
           (''use_cache'', PyBool True)]"
  let ?env = "checking_env ?kw (Responded 200 [Chunk ''abc''])"
  let ?envd = "checking_env ?kwd (ConnectionFailed ''refused'')"
  let ?req = "\<lparr>instruction = ''hi'', max_new_tokens = 64, do_sample = True,
           temperature = 7 / 10, top_p = 9 / 10, video_url = Some ''http://x/y.mp4''\<rparr>"
  let ?reqd = "\<lparr>instruction = ''hi'', max_new_tokens = 512, do_sample = False,
         temperature = 7 / 10, top_p = 1, video_url = None\<rparr>"
  let ?b = "\<lparr>body_instruction = Some ''hi'', body_max_new_tokens = Some 64,
        body_do_sample = Some True, body_temperature = Some (7 / 10),
        body_top_p = Some (9 / 10), body_video_url = Some ''http://x/y.mp4''\<rparr>"
  let ?bd = "\<lparr>body_instruction = Some ''hi'', body_max_new_tokens = None,
        body_do_sample = None, body_temperature = Some (7 / 10),
        body_top_p = None, body_video_url = None\<rparr>"
  let ?w1 = "snd (download_video ?env ''http://x/y.mp4'' empty_world)"
  have m: "model loaded_state = Some [''cuda:0'']" and p: "processor loaded_state = Some ()"
    by (simp_all add: loaded_state_def)
  have d: "download_video ?env ''http://x/y.mp4'' empty_world = (Inr ''/tmp/tmpvid.mp4'', ?w1)"
    and f: "between ?env (files ?w1) ''/tmp/tmpvid.mp4'' = Some ''abc''"
    using checking_fetch_ok [of ?kw "''http://x/y.mp4''"] by simp_all
  have po: "process_one ?env [''cuda:0''] () (video_prompt ''hi'') (Some ''/tmp/tmpvid.mp4'') ?kw =
      Inr (''generated for '' @ video_prompt ''hi'')"
    and pod: "process_one ?envd [''cuda:0''] () ''hi'' None ?kwd = Inr ''generated for hi''"
    by (simp_all add: checking_env_def sample_env_def)
  note full = generate_kwargs_forwarded [of empty_world ?env loaded_state ?req ?b]
  note part = generate_kwargs_forwarded [of empty_world ?envd loaded_state ?reqd ?bd]
  have b1: "GenerateRequest_of ?b = Some ?req"
  proof -
    from full [THEN conjunct2, THEN conjunct2, THEN conjunct2]
    obtain r where r: "GenerateRequest_of ?b = Some r" "instruction r = ''hi''"
      "video_url r = Some ''http://x/y.mp4''" "max_new_tokens r = 64" "do_sample r = True"
      "temperature r = 7 / 10" "top_p r = 9 / 10"
      by (auto simp del: eq_divide_eq_numeral1 divide_eq_eq_numeral1)
    then have "r = ?req" by (cases r) simp
    with r show ?thesis by simp
  qed
  have b2: "GenerateRequest_of ?bd = Some ?reqd"
  proof -
    from part [THEN conjunct2, THEN conjunct2, THEN conjunct2]
    obtain r where r: "GenerateRequest_of ?bd = Some r" "instruction r = ''hi''"
      "video_url r = None" "max_new_tokens r = 512" "do_sample r = False"
      "temperature r = 7 / 10" "top_p r = 1"
      by (auto simp del: eq_divide_eq_numeral1 divide_eq_eq_numeral1)
    then have "r = ?reqd" by (cases r) simp
    with r show ?thesis by simp
  qed
  have hv: "model loaded_state = Some [''cuda:0''] \<and> processor loaded_state = Some () \<and>
      video_url ?req = Some ''http://x/y.mp4'' \<and>
      download_video ?env ''http://x/y.mp4'' empty_world = (Inr ''/tmp/tmpvid.mp4'', ?w1) \<and>
      between ?env (files ?w1) ''/tmp/tmpvid.mp4'' = Some ''abc'' \<and> ''abc'' \<noteq> []"
    using m p d f by simp
  have po': "process_one ?env [''cuda:0''] () (video_prompt (instruction ?req))
        (Some ''/tmp/tmpvid.mp4'')
        [(''do_sample'', PyBool (do_sample ?req)), (''max_new_tokens'', PyInt (max_new_tokens ?req)),
         (''top_p'', PyFloat (top_p ?req)), (''temperature'', PyFloat (temperature ?req)),
         (''use_cache'', PyBool True)] = Inr (''generated for '' @ video_prompt ''hi'')"
    using po by simp
  from full [THEN conjunct2, THEN conjunct2, THEN conjunct1, rule_format, OF hv]
  have v0: "ProcessOne (video_prompt (instruction ?req)) (Some ''/tmp/tmpvid.mp4'')
        [(''do_sample'', PyBool (do_sample ?req)), (''max_new_tokens'', PyInt (max_new_tokens ?req)),
         (''top_p'', PyFloat (top_p ?req)), (''temperature'', PyFloat (temperature ?req)),
         (''use_cache'', PyBool True)]
       \<in> set (request_events empty_world (snd (generate ?env loaded_state ?req empty_world)))"
    and vr0: "\<forall>t. process_one ?env [''cuda:0''] () (video_prompt (instruction ?req))
        (Some ''/tmp/tmpvid.mp4'')
        [(''do_sample'', PyBool (do_sample ?req)), (''max_new_tokens'', PyInt (max_new_tokens ?req)),
         (''top_p'', PyFloat (top_p ?req)), (''temperature'', PyFloat (temperature ?req)),
         (''use_cache'', PyBool True)] = Inr t \<longrightarrow>
        fst (generate ?env loaded_state ?req empty_world) =
          Inr [(''generated_text'', PyStr t), (''status'', PyStr ''success'')]"
    by blast+
  from v0 have v: "ProcessOne (video_prompt ''hi'') (Some ''/tmp/tmpvid.mp4'') ?kw
       \<in> set (request_events empty_world (snd (generate ?env loaded_state ?req empty_world)))"
    by simp
  from vr0 po' have vr: "fst (generate ?env loaded_state ?req empty_world) =
       Inr [(''generated_text'', PyStr (''generated for '' @ video_prompt ''hi'')),
            (''status'', PyStr ''success'')]"
    by blast
  have ht: "model loaded_state = Some [''cuda:0''] \<and> processor loaded_state = Some () \<and>
      video_url ?reqd = None"
    using m p by simp
  have pod': "process_one ?envd [''cuda:0''] () (instruction ?reqd) None
        [(''do_sample'', PyBool (do_sample ?reqd)), (''max_new_tokens'', PyInt (max_new_tokens ?reqd)),
         (''top_p'', PyFloat (top_p ?reqd)), (''temperature'', PyFloat (temperature ?reqd)),
         (''use_cache'', PyBool True)] = Inr ''generated for hi''"
    using pod by simp
  from part [THEN conjunct2, THEN conjunct1, rule_format, OF ht]
  have t0: "request_events empty_world (snd (generate ?envd loaded_state ?reqd empty_world)) =
        [ProcessOne (instruction ?reqd) None
           [(''do_sample'', PyBool (do_sample ?reqd)),
            (''max_new_tokens'', PyInt (max_new_tokens ?reqd)),
            (''top_p'', PyFloat (top_p ?reqd)), (''temperature'', PyFloat (temperature ?reqd)),
            (''use_cache'', PyBool True)]]"
    and tr0: "\<forall>t. process_one ?envd [''cuda:0''] () (instruction ?reqd) None
        [(''do_sample'', PyBool (do_sample ?reqd)), (''max_new_tokens'', PyInt (max_new_tokens ?reqd)),
         (''top_p'', PyFloat (top_p ?reqd)), (''temperature'', PyFloat (temperature ?reqd)),
         (''use_cache'', PyBool True)] = Inr t \<longrightarrow>
        fst (generate ?envd loaded_state ?reqd empty_world) =
          Inr [(''generated_text'', PyStr t), (''status'', PyStr ''success'')]"
    by blast+
  from t0 have t: "request_events empty_world
       (snd (generate ?envd loaded_state ?reqd empty_world)) = [ProcessOne ''hi'' None ?kwd]"
    by simp
  from tr0 pod' have tr: "fst (generate ?envd loaded_state ?reqd empty_world) =
       Inr [(''generated_text'', PyStr ''generated for hi''), (''status'', PyStr ''success'')]"
    by blast
  have d': "fst (download_video ?env ''http://x/y.mp4'' empty_world) = Inr ''/tmp/tmpvid.mp4''"
    using arg_cong [OF d, of fst] by (simp only: fst_conv)
  from b1 b2 m p d' v vr t tr show ?thesis by blast
qed

subsection \<open>Requests with a video\<close>

text \<open>
  C1. The three places that raise a 400 (the failed download, the missing file, the empty
  file) are inside the outer \<open>try\<close>, whose handler catches them and raises a 500 in their
  place. With a video URL that answers 404, with a refused connection, with an empty body
  and with a file that has gone missing, the response is 500.
\<close>

theorem generate_download_failure_responds_500:
  "http_response (fst (generate (sample_env (Responded 404 []) id (Inr ''out'')) loaded_state
        (sample_request ''hi'' (Some ''http://x/y.mp4'')) empty_world)) =
     (500, JsonBody [(''detail'',
        PyStr ''Failed to download video: Client Error for url: http://x/y.mp4'')]) \<and>
   http_response (fst (generate (sample_env (ConnectionFailed ''refused'') id (Inr ''out''))
        loaded_state (sample_request ''hi'' (Some ''http://x/y.mp4'')) empty_world)) =
     (500, JsonBody [(''detail'', PyStr ''Failed to download video: refused'')]) \<and>
   http_response (fst (generate (sample_env (Responded 200 []) id (Inr ''out'')) loaded_state
        (sample_request ''hi'' (Some ''http://x/y.mp4'')) empty_world)) =
     (500, JsonBody [(''detail'', PyStr ''Video file is empty'')]) \<and>
   http_response (fst (generate (sample_env (Responded 200 [Chunk ''abc'']) (\<lambda>fs. Map.empty)
        (Inr ''out'')) loaded_state
        (sample_request ''hi'' (Some ''http://x/y.mp4'')) empty_world)) =
     (500, JsonBody [(''detail'', PyStr ''No such file: /tmp/tmpvid.mp4'')])"
  by (simp add: handler_defs sample_defs)

text \<open>
  C2. For a request with a video URL, the prompt of every generation call is
  the marker line \<open><video>\<close> and a newline, followed by the instruction after
  \<open>replace("<image>", "")\<close> and then \<open>replace("<video>", "")\<close>. For the instruction
  \<open><video>\<close>, newline, \<open>What happens?\<close> the prompt has two newlines after the marker: the
  newline that followed the removed marker stays.
\<close>

theorem generate_video_prompt:
  assumes "video_url request = Some url"
  shows "(\<forall>prompt vf kw.
      ProcessOne prompt vf kw \<in> set (request_events w (snd (generate env st request w))) \<longrightarrow>
      prompt = ''<video>'' @ [CHR 0x0A] @
               str_replace (str_replace (instruction request) ''<image>'' []) ''<video>'' []) \<and>
    (instruction request = ''<video>'' @ [CHR 0x0A] @ ''What happens?'' \<longrightarrow>
      (\<forall>prompt vf kw.
        ProcessOne prompt vf kw \<in> set (request_events w (snd (generate env st request w))) \<longrightarrow>
        prompt = ''<video>'' @ [CHR 0x0A, CHR 0x0A] @ ''What happens?''))"
proof -
  have a: "prompt = video_prompt (instruction request)"
    if "ProcessOne prompt vf kw \<in> set (request_events w (snd (generate env st request w)))"
    for prompt vf kw
    using generate_processone_events [OF that] assms by simp
  have b: "video_prompt (''<video>'' @ [CHR 0x0A] @ ''What happens?'') =
           ''<video>'' @ [CHR 0x0A, CHR 0x0A] @ ''What happens?''"
    by (simp add: video_prompt_def)
  show ?thesis using a b by (auto simp: video_prompt_def)
qed

theorem generate_video_prompt_witness:
  "video_url (sample_request (''Look: <image><video>what is shown?'') (Some ''http://x/y.mp4'')) =
     Some ''http://x/y.mp4'' \<and>
   ProcessOne (''<video>'' @ [CHR 0x0A] @ ''Look: what is shown?'') (Some ''/tmp/tmpvid.mp4'')
     (generate_kwargs (sample_request ''Look: <image><video>what is shown?''
        (Some ''http://x/y.mp4'')))
     \<in> set (request_events empty_world
        (snd (generate (sample_env (Responded 200 [Chunk ''abc'']) id (Inr ''out'')) loaded_state
           (sample_request (''Look: <image><video>what is shown?'')
              (Some ''http://x/y.mp4'')) empty_world))) \<and>
   ''<video>'' @ [CHR 0x0A] @ ''Look: what is shown?'' =
     ''<video>'' @ [CHR 0x0A] @
       str_replace (str_replace
         (instruction (sample_request ''Look: <image><video>what is shown?''
            (Some ''http://x/y.mp4''))) ''<image>'' []) ''<video>'' [] \<and>
   instruction (sample_request (''<video>'' @ [CHR 0x0A] @ ''What happens?'')
      (Some ''http://x/y.mp4'')) = ''<video>'' @ [CHR 0x0A] @ ''What happens?'' \<and>
   ProcessOne (video_prompt (''<video>'' @ [CHR 0x0A] @ ''What happens?''))
     (Some ''/tmp/tmpvid.mp4'')
     (generate_kwargs (sample_request (''<video>'' @ [CHR 0x0A] @ ''What happens?'')
        (Some ''http://x/y.mp4'')))
     \<in> set (request_events empty_world
        (snd (generate (sample_env (Responded 200 [Chunk ''abc'']) id (Inr ''out'')) loaded_state
           (sample_request (''<video>'' @ [CHR 0x0A] @ ''What happens?'')
              (Some ''http://x/y.mp4'')) empty_world))) \<and>
   video_prompt (''<video>'' @ [CHR 0x0A] @ ''What happens?'') =
     ''<video>'' @ [CHR 0x0A, CHR 0x0A] @ ''What happens?''"
proof -
  let ?req = "sample_request ''Look: <image><video>what is shown?'' (Some ''http://x/y.mp4'')"
  let ?scn = "sample_request (''<video>'' @ [CHR 0x0A] @ ''What happens?'')
      (Some ''http://x/y.mp4'')"
  let ?env = "sample_env (Responded 200 [Chunk ''abc'']) id (Inr ''out'')"
  have h: "video_url ?req = Some ''http://x/y.mp4''"
    by (simp add: sample_request_def)
  have ev: "ProcessOne (''<video>'' @ [CHR 0x0A] @ ''Look: what is shown?'')
        (Some ''/tmp/tmpvid.mp4'') (generate_kwargs ?req)
     \<in> set (request_events empty_world (snd (generate ?env loaded_state ?req empty_world)))"
    by (simp add: sample_run_ok video_prompt_def)
  from generate_video_prompt [OF h, of empty_world ?env loaded_state] ev
  have a: "''<video>'' @ [CHR 0x0A] @ ''Look: what is shown?'' =
     ''<video>'' @ [CHR 0x0A] @
       str_replace (str_replace (instruction ?req) ''<image>'' []) ''<video>'' []"
    by blast
  have h': "video_url ?scn = Some ''http://x/y.mp4''"
    and i: "instruction ?scn = ''<video>'' @ [CHR 0x0A] @ ''What happens?''"
    by (simp_all add: sample_request_def)
  have ev': "ProcessOne (video_prompt (''<video>'' @ [CHR 0x0A] @ ''What happens?''))
        (Some ''/tmp/tmpvid.mp4'') (generate_kwargs ?scn)
     \<in> set (request_events empty_world (snd (generate ?env loaded_state ?scn empty_world)))"
    by (simp add: sample_run_ok)
  from generate_video_prompt [OF h', of empty_world ?env loaded_state] i ev'
  have b: "video_prompt (''<video>'' @ [CHR 0x0A] @ ''What happens?'') =
     ''<video>'' @ [CHR 0x0A, CHR 0x0A] @ ''What happens?''"
    by blast
  from h ev a i ev' b show ?thesis by blast
qed

text \<open>
  The prompt of the scenario as the claim gives it, with one newline, is not the prompt of
  the generation call.
\<close>

theorem generate_video_prompt_scenario_counterexample:
  "ProcessOne (''<video>'' @ [CHR 0x0A, CHR 0x0A] @ ''What happens?'') (Some ''/tmp/tmpvid.mp4'')
     (generate_kwargs (sample_request (''<video>'' @ [CHR 0x0A] @ ''What happens?'')
        (Some ''http://x/y.mp4'')))
     \<in> set (request_events empty_world
        (snd (generate (sample_env (Responded 200 [Chunk ''abc'']) id (Inr ''out'')) loaded_state
           (sample_request (''<video>'' @ [CHR 0x0A] @ ''What happens?'')
              (Some ''http://x/y.mp4'')) empty_world))) \<and>
   ProcessOne (''<video>'' @ [CHR 0x0A] @ ''What happens?'') (Some ''/tmp/tmpvid.mp4'')
     (generate_kwargs (sample_request (''<video>'' @ [CHR 0x0A] @ ''What happens?'')
        (Some ''http://x/y.mp4'')))
     \<notin> set (request_events empty_world
        (snd (generate (sample_env (Responded 200 [Chunk ''abc'']) id (Inr ''out'')) loaded_state
           (sample_request (''<video>'' @ [CHR 0x0A] @ ''What happens?'')
              (Some ''http://x/y.mp4'')) empty_world)))"
  by (simp add: sample_run_ok video_prompt_def)

text \<open>
  C3. A request with a video URL creates at most one temporary file. When the
  model state is loaded and the download returns a path, the request creates exactly that
  file, its last action is the one unlink of that path, whatever the response is, and the
  file does not exist afterwards.
\<close>

theorem generate_temp_file_lifecycle:
  assumes v: "video_url request = Some url"
  shows "length (filter is_CreateTemp (request_events w (snd (generate env st request w)))) \<le> 1 \<and>
    (\<forall>m p path. model st = Some m \<and> processor st = Some p \<and>
        fst (download_video env url w) = Inr path \<longrightarrow>
        filter is_CreateTemp (request_events w (snd (generate env st request w))) = [CreateTemp path] \<and>
        filter is_Unlink (request_events w (snd (generate env st request w))) = [Unlink path] \<and>
        last (request_events w (snd (generate env st request w))) = Unlink path \<and>
        files (snd (generate env st request w)) path = None)"
proof (cases "model st = None \<or> processor st = None")
  case True
  then show ?thesis using generate_not_loaded [of st env request w] by auto
next
  case False
  then obtain m p where mp: "model st = Some m" "processor st = Some p" by auto
  note ge = generate_video_events [OF v mp, of env w]
  note de = download_video_events [of env url w]
  show ?thesis
  proof (cases "fst (download_video env url w)")
    case (Inl e)
    with ge have "snd (generate env st request w) = snd (download_video env url w)" by simp
    with de Inl show ?thesis by auto
  next
    case (Inr path)
    with ge have "files (snd (generate env st request w)) path = None"
      and "request_events w (snd (generate env st request w)) =
               [HttpGet url, CreateTemp path, Unlink path] \<or>
           request_events w (snd (generate env st request w)) =
               [HttpGet url, CreateTemp path,
                ProcessOne (video_prompt (instruction request)) (Some path)
                  (generate_kwargs request),
                Unlink path]"
      by simp_all
    with Inr show ?thesis by auto
  qed
qed

theorem generate_temp_file_lifecycle_witness:
  "video_url (sample_request ''hi'' (Some ''http://x/y.mp4'')) = Some ''http://x/y.mp4'' \<and>
   model loaded_state = Some [''cuda:0''] \<and> processor loaded_state = Some () \<and>
   fst (download_video (sample_env (Responded 200 [Chunk ''abc'']) id
          (Inl (OtherException ''out of memory''))) ''http://x/y.mp4'' empty_world) =
     Inr ''/tmp/tmpvid.mp4'' \<and>
   http_response (fst (generate (sample_env (Responded 200 [Chunk ''abc'']) id
        (Inl (OtherException ''out of memory''))) loaded_state
        (sample_request ''hi'' (Some ''http://x/y.mp4'')) empty_world)) =
     (500, JsonBody [(''detail'', PyStr ''out of memory'')]) \<and>
   filter is_CreateTemp (request_events empty_world
     (snd (generate (sample_env (Responded 200 [Chunk ''abc'']) id
        (Inl (OtherException ''out of memory''))) loaded_state
        (sample_request ''hi'' (Some ''http://x/y.mp4'')) empty_world))) =
     [CreateTemp ''/tmp/tmpvid.mp4''] \<and>
   last (request_events empty_world
     (snd (generate (sample_env (Responded 200 [Chunk ''abc'']) id
        (Inl (OtherException ''out of memory''))) loaded_state
        (sample_request ''hi'' (Some ''http://x/y.mp4'')) empty_world))) =
     Unlink ''/tmp/tmpvid.mp4'' \<and>
   files (snd (generate (sample_env (Responded 200 [Chunk ''abc'']) id
        (Inl (OtherException ''out of memory''))) loaded_state
        (sample_request ''hi'' (Some ''http://x/y.mp4'')) empty_world)) ''/tmp/tmpvid.mp4'' = None"
proof -
  let ?req = "sample_request ''hi'' (Some ''http://x/y.mp4'')"
  let ?env = "sample_env (Responded 200 [Chunk ''abc'']) id (Inl (OtherException ''out of memory''))"
  have h: "video_url ?req = Some ''http://x/y.mp4''"
    by (simp add: sample_request_def)
  have m: "model loaded_state = Some [''cuda:0'']" and p: "processor loaded_state = Some ()"
    by (simp_all add: loaded_state_def)
  have d: "fst (download_video ?env ''http://x/y.mp4'' empty_world) = Inr ''/tmp/tmpvid.mp4''"
    by (rule sample_fetch_ok)
  have r: "http_response (fst (generate ?env loaded_state ?req empty_world)) =
     (500, JsonBody [(''detail'', PyStr ''out of memory'')])"
    using sample_run_inference_error [of "''out of memory''" "''hi''" "''http://x/y.mp4''"]
    by simp
  from generate_temp_file_lifecycle [OF h, of empty_world ?env loaded_state] m p d r h
  show ?thesis by blast
qed

text \<open>
  A video URL that answers 404: the request creates no temporary file at all.
\<close>

theorem generate_temp_file_not_created_counterexample:
  "video_url (sample_request ''hi'' (Some ''http://x/y.mp4'')) = Some ''http://x/y.mp4'' \<and>
   filter is_CreateTemp (request_events empty_world
     (snd (generate (sample_env (Responded 404 []) id (Inr ''out'')) loaded_state
        (sample_request ''hi'' (Some ''http://x/y.mp4'')) empty_world))) = []"
proof
  show "video_url (sample_request ''hi'' (Some ''http://x/y.mp4'')) = Some ''http://x/y.mp4''"
    by (simp add: sample_request_def)
  show "filter is_CreateTemp (request_events empty_world
     (snd (generate (sample_env (Responded 404 []) id (Inr ''out'')) loaded_state
        (sample_request ''hi'' (Some ''http://x/y.mp4'')) empty_world))) = []"
    by (simp add: sample_run_404)
qed

text \<open>
  C10. For a request with a video URL whose download raises, none of the events of the
  request is an unlink; and every unlink of a request is the unlink of the path that the
  download returned.
\<close>

theorem generate_unlink_only_after_fetch:
  assumes v: "video_url request = Some url"
  shows "(\<forall>e. fst (download_video env url w) = Inl e \<longrightarrow>
            (\<forall>ev \<in> set (request_events w (snd (generate env st request w))). \<not> is_Unlink ev)) \<and>
         (\<forall>ev \<in> set (request_events w (snd (generate env st request w))). is_Unlink ev \<longrightarrow>
            (\<exists>path. fst (download_video env url w) = Inr path \<and> ev = Unlink path))"
proof (cases "model st = None \<or> processor st = None")
  case True
  then show ?thesis using generate_not_loaded [of st env request w] by auto
next
  case False
  then obtain m p where mp: "model st = Some m" "processor st = Some p" by auto
  note ge = generate_video_events [OF v mp, of env w]
  note de = download_video_events [of env url w]
  show ?thesis
  proof (cases "fst (download_video env url w)")
    case (Inl e)
    with ge have "snd (generate env st request w) = snd (download_video env url w)" by simp
    with de Inl show ?thesis by auto
  next
    case (Inr path)
    with ge have "request_events w (snd (generate env st request w)) =
               [HttpGet url, CreateTemp path, Unlink path] \<or>
           request_events w (snd (generate env st request w)) =
               [HttpGet url, CreateTemp path,
                ProcessOne (video_prompt (instruction request)) (Some path)
                  (generate_kwargs request),
                Unlink path]"
      by simp
    with Inr show ?thesis by auto
  qed
qed

theorem generate_unlink_only_after_fetch_witness:
  "video_url (sample_request ''hi'' (Some ''http://x/y.mp4'')) = Some ''http://x/y.mp4'' \<and>
   fst (download_video (sample_env (Responded 404 []) id (Inr ''out'')) ''http://x/y.mp4''
          empty_world) =
     Inl (HTTPException 400
        ''Failed to download video: Client Error for url: http://x/y.mp4'') \<and>
   request_events empty_world
     (snd (generate (sample_env (Responded 404 []) id (Inr ''out'')) loaded_state
        (sample_request ''hi'' (Some ''http://x/y.mp4'')) empty_world)) \<noteq> [] \<and>
   filter is_Unlink (request_events empty_world
     (snd (generate (sample_env (Responded 404 []) id (Inr ''out'')) loaded_state
        (sample_request ''hi'' (Some ''http://x/y.mp4'')) empty_world))) = [] \<and>
   Unlink ''/tmp/tmpvid.mp4'' \<in> set (request_events empty_world
     (snd (generate (sample_env (Responded 200 [Chunk ''abc'']) id (Inr ''out'')) loaded_state
        (sample_request ''hi'' (Some ''http://x/y.mp4'')) empty_world))) \<and>
   (\<exists>path. fst (download_video (sample_env (Responded 200 [Chunk ''abc'']) id (Inr ''out''))
          ''http://x/y.mp4'' empty_world) = Inr path \<and>
      Unlink ''/tmp/tmpvid.mp4'' = Unlink path)"
proof -
  let ?req = "sample_request ''hi'' (Some ''http://x/y.mp4'')"
  let ?bad = "sample_env (Responded 404 []) id (Inr ''out'')"
  let ?good = "sample_env (Responded 200 [Chunk ''abc'']) id (Inr ''out'')"
  have h: "video_url ?req = Some ''http://x/y.mp4''"
    by (simp add: sample_request_def)
  have d: "fst (download_video ?bad ''http://x/y.mp4'' empty_world) =
     Inl (HTTPException 400 ''Failed to download video: Client Error for url: http://x/y.mp4'')"
    using sample_fetch_404 [of "Inr ''out''" "''http://x/y.mp4''"] by simp
  have ne: "request_events empty_world (snd (generate ?bad loaded_state ?req empty_world)) \<noteq> []"
    by (simp add: sample_run_404)
  have u: "Unlink ''/tmp/tmpvid.mp4'' \<in> set (request_events empty_world
     (snd (generate ?good loaded_state ?req empty_world)))"
    by (simp add: sample_run_ok)
  have iu: "is_Unlink (Unlink ''/tmp/tmpvid.mp4'')" by simp
  from generate_unlink_only_after_fetch [OF h, of ?bad empty_world loaded_state] d
  have a: "filter is_Unlink (request_events empty_world
     (snd (generate ?bad loaded_state ?req empty_world))) = []"
    unfolding filter_empty_conv by blast
  from generate_unlink_only_after_fetch [OF h, of ?good empty_world loaded_state] u iu
  have b: "\<exists>path. fst (download_video ?good ''http://x/y.mp4'' empty_world) = Inr path \<and>
      Unlink ''/tmp/tmpvid.mp4'' = Unlink path"
    by blast
  from h d ne a u b show ?thesis by blast
qed

subsection \<open>The health endpoint\<close>

text \<open>
  C8. In every state in which a held model has at least one parameter tensor, as the
  network that \<open>load_model\<close> stores has, the health check does not fail: the response is
  200 with status "healthy", \<open>model_loaded\<close> saying whether a model is held, and as
  device "not loaded" without a model and the device of the model's first parameter
  tensor with one.
\<close>

theorem health_check_response:
  assumes "\<forall>m. model st = Some m \<longrightarrow> param_devices env m \<noteq> []"
  shows "http_response (fst (health_check env st)) =
     (200, JsonBody [(''status'', PyStr ''healthy''),
                     (''model_loaded'', PyBool (model st \<noteq> None)),
                     (''device'', PyStr (case model st of
                                           None \<Rightarrow> ''not loaded''
                                         | Some m \<Rightarrow> hd (param_devices env m)))])"
  using assms
  by (auto simp: health_check_def split: option.splits list.splits)

theorem health_check_response_witness:
  "model (model_state_init :: (string list, unit) ModelState) = None \<and>
   http_response (fst (health_check (sample_env (ConnectionFailed ''refused'') id (Inr ''out''))
       model_state_init)) =
     (200, JsonBody [(''status'', PyStr ''healthy''), (''model_loaded'', PyBool False),
                     (''device'', PyStr ''not loaded'')]) \<and>
   model loaded_state = Some [''cuda:0''] \<and>
   param_devices (sample_env (ConnectionFailed ''refused'') id (Inr ''out'')) [''cuda:0''] =
     [''cuda:0''] \<and>
   http_response (fst (health_check (sample_env (ConnectionFailed ''refused'') id (Inr ''out''))
       loaded_state)) =
     (200, JsonBody [(''status'', PyStr ''healthy''), (''model_loaded'', PyBool True),
                     (''device'', PyStr ''cuda:0'')])"
proof -
  let ?env = "sample_env (ConnectionFailed ''refused'') id (Inr ''out'')"
  have n: "model (model_state_init :: (string list, unit) ModelState) = None"
    by (simp add: model_state_init_def)
  have m: "model loaded_state = Some [''cuda:0'']"
    by (simp add: loaded_state_def)
  have d: "param_devices ?env [''cuda:0''] = [''cuda:0'']"
    by (simp add: sample_env_def)
  have h0: "\<forall>m. model (model_state_init :: (string list, unit) ModelState) = Some m \<longrightarrow>
      param_devices ?env m \<noteq> []"
    using n by simp
  have h1: "\<forall>m. model loaded_state = Some m \<longrightarrow> param_devices ?env m \<noteq> []"
    using m d by auto
  have a: "http_response (fst (health_check ?env model_state_init)) =
     (200, JsonBody [(''status'', PyStr ''healthy''), (''model_loaded'', PyBool False),
                     (''device'', PyStr ''not loaded'')])"
    using health_check_response [OF h0] n by simp
  have b: "http_response (fst (health_check ?env loaded_state)) =
     (200, JsonBody [(''status'', PyStr ''healthy''), (''model_loaded'', PyBool True),
                     (''device'', PyStr ''cuda:0'')])"
    using health_check_response [OF h1] m d by simp
  from n a m d b show ?thesis by blast
qed

text \<open>
  C9. A health check leaves the model state as it is, so a second check right after it
  gives the same outcome as the first.
\<close>

theorem health_check_idempotent:
  "snd (health_check env st) = st \<and>
   health_check env (snd (health_check env st)) = health_check env st"
  by (auto simp: health_check_def split: option.splits list.splits)

end
